theory Spec2Isabelle
  imports Complex_Main "HOL-Library.Product_Lexorder" "HOL-Library.Sublist" "HOL-Library.Multiset"
begin

section \<open>Shared vocabulary of the two dashboards\<close>

text \<open>
  Both applications read the same store: \<open>main_data\<close> (identifier and time text),
  and tables of one value per channel-sensor column (\<open>rpm\<close>, \<open>corruption_status\<close>,
  one table per metric). A stored value is a number of the data frame: a finite number,
  one of the two infinities, or \<open>NaN\<close>, which also stands for a missing value (SQL NULL).
  Finite numbers are exact reals; the rounding of floating-point arithmetic, and a sum of
  finite numbers that overflows, are outside the model.
\<close>

datatype number = Num real | PosInf | NegInf | NaN

datatype channel = Ch1 | Ch2 | Ch3

datatype sensor = S1 | S2 | S3 | S4 | S5 | S6

datatype error = DatabaseError | ParserError | AttributeError | ValueError

fun channel_name :: "channel \<Rightarrow> string" where
  "channel_name Ch1 = ''ch1''"
| "channel_name Ch2 = ''ch2''"
| "channel_name Ch3 = ''ch3''"

fun sensor_name :: "sensor \<Rightarrow> string" where
  "sensor_name S1 = ''s1''"
| "sensor_name S2 = ''s2''"
| "sensor_name S3 = ''s3''"
| "sensor_name S4 = ''s4''"
| "sensor_name S5 = ''s5''"
| "sensor_name S6 = ''s6''"

definition SENSORS :: "sensor list" where
  "SENSORS = [S1, S2, S3, S4, S5, S6]"

definition CHANNELS :: "channel list" where
  "CHANNELS = [Ch1, Ch2, Ch3]"

fun COLORS :: "channel \<Rightarrow> string" where
  "COLORS Ch1 = ''blue''"
| "COLORS Ch2 = ''red''"
| "COLORS Ch3 = ''green''"

subsection \<open>Timestamps\<close>

record timestamp =
  ts_year :: int
  ts_month :: int
  ts_day :: int
  ts_hour :: int
  ts_minute :: int
  ts_second :: int
  ts_nanosecond :: int

text \<open>The text of a \<open>time\<close> column: either \<open>pd.to_datetime\<close> parses it, or it raises.\<close>

datatype time_text = Parses timestamp | Unparseable

fun to_datetime :: "time_text \<Rightarrow> error + timestamp" where
  "to_datetime (Parses t) = Inr t"
| "to_datetime Unparseable = Inl ParserError"

text \<open>\<open>.dt.date\<close>: the calendar date, compared as Python compares dates (year, month, day).\<close>

definition date_of :: "timestamp \<Rightarrow> int \<times> int \<times> int" where
  "date_of t = (ts_year t, ts_month t, ts_day t)"

definition ts_key :: "timestamp \<Rightarrow> (int \<times> int \<times> int) \<times> int \<times> int \<times> int \<times> int" where
  "ts_key t = (date_of t, ts_hour t, ts_minute t, ts_second t, ts_nanosecond t)"

text \<open>The proleptic Gregorian ordinal of a date, as Python's \<open>datetime\<close> computes it.\<close>

definition is_leap :: "int \<Rightarrow> bool" where
  "is_leap y = (if y mod 400 = 0 then True else if y mod 100 = 0 then False else y mod 4 = 0)"

definition days_before_year :: "int \<Rightarrow> int" where
  "days_before_year y = (let y1 = y - 1 in y1 * 365 + y1 div 4 - y1 div 100 + y1 div 400)"

definition days_in_month :: "int \<Rightarrow> int \<Rightarrow> int" where
  "days_in_month y m =
     (if m = 2 then (if is_leap y then 29 else 28)
      else if m = 4 then 30 else if m = 6 then 30 else if m = 9 then 30 else if m = 11 then 30
      else 31)"

definition days_before_month :: "int \<Rightarrow> int \<Rightarrow> int" where
  "days_before_month y m = sum_list (map (days_in_month y) [1..m - 1])"

definition ymd2ord :: "int \<Rightarrow> int \<Rightarrow> int \<Rightarrow> int" where
  "ymd2ord y m d = days_before_year y + days_before_month y m + d"

definition toordinal :: "timestamp \<Rightarrow> int" where
  "toordinal t = ymd2ord (ts_year t) (ts_month t) (ts_day t)"

definition isoweek1monday :: "int \<Rightarrow> int" where
  "isoweek1monday y =
     (let firstday = ymd2ord y 1 1;
          firstweekday = (firstday + 6) mod 7;
          week1monday = firstday - firstweekday
      in if firstweekday > 3 then week1monday + 7 else week1monday)"

text \<open>\<open>.dt.isocalendar().week\<close>: the ISO 8601 week number.\<close>

definition isocalendar_week :: "timestamp \<Rightarrow> int" where
  "isocalendar_week t =
     (let y = ts_year t;
          today = toordinal t;
          week = (today - isoweek1monday y) div 7
      in if week < 0 then (today - isoweek1monday (y - 1)) div 7 + 1
         else if week \<ge> 52 then (if today \<ge> isoweek1monday (y + 1) then 1 else week + 1)
         else week + 1)"

subsection \<open>Tables and data frames\<close>

record main_row =
  main_id :: int
  main_time :: time_text

record value_row =
  val_id :: int
  val_cols :: "channel \<Rightarrow> sensor \<Rightarrow> number"

record merged_row =
  mr_id :: int
  mr_time :: timestamp
  mr_cols :: "channel \<Rightarrow> sensor \<Rightarrow> number"

record database =
  tbl_main_data :: "main_row list option"
  tbl_rpm :: "value_row list option"
  tbl_named :: "string \<Rightarrow> value_row list option"

text \<open>\<open>pd.read_sql\<close> of a whole table: a table that does not exist raises.\<close>

definition read_sql :: "'a list option \<Rightarrow> error + 'a list" where
  "read_sql tbl = (case tbl of None \<Rightarrow> Inl DatabaseError | Some rows \<Rightarrow> Inr rows)"

text \<open>
  \<open>pd.merge(left, right, on=key, how='inner')\<close>: every pair of a left and a right row with
  equal keys, in the order of the left rows.
\<close>

definition merge_inner :: "('a \<Rightarrow> 'k) \<Rightarrow> ('b \<Rightarrow> 'k) \<Rightarrow> 'a list \<Rightarrow> 'b list \<Rightarrow> ('a \<times> 'b) list" where
  "merge_inner kl kr left right =
     concat (map (\<lambda>l. map (Pair l) (filter (\<lambda>r. kr r = kl l) right)) left)"

text \<open>The assignment \<open>merged['time'] = pd.to_datetime(merged['time'])\<close>, row by row.\<close>

fun convert_time :: "(main_row \<times> value_row) list \<Rightarrow> error + merged_row list" where
  "convert_time [] = Inr []"
| "convert_time ((m, v) # rest) =
     (case to_datetime (main_time m) of
        Inl e \<Rightarrow> Inl e
      | Inr t \<Rightarrow>
          (case convert_time rest of
             Inl e \<Rightarrow> Inl e
           | Inr rows \<Rightarrow> Inr (\<lparr>mr_id = main_id m, mr_time = t, mr_cols = val_cols v\<rparr> # rows)))"

section \<open>The time-series viewer (app_metrics.py)\<close>

definition load_data :: "database \<Rightarrow> string \<Rightarrow> error + (merged_row list \<times> merged_row list \<times> string)" where
  "load_data db metric =
     (case read_sql (tbl_main_data db) of
        Inl e \<Rightarrow> Inl e
      | Inr df \<Rightarrow>
     (case read_sql (tbl_rpm db) of
        Inl e \<Rightarrow> Inl e
      | Inr df_rpm \<Rightarrow>
     (case read_sql (tbl_named db metric) of
        Inl e \<Rightarrow> Inl e
      | Inr df1 \<Rightarrow>
     (case convert_time (merge_inner main_id val_id df df1) of
        Inl e \<Rightarrow> Inl e
      | Inr merged_df1 \<Rightarrow>
     (case convert_time (merge_inner main_id val_id df df_rpm) of
        Inl e \<Rightarrow> Inl e
      | Inr merged_df2 \<Rightarrow> Inr (merged_df1, merged_df2, metric))))))"

text \<open>\<open>pd.to_datetime(start_date).date()\<close>: \<open>None\<close> stays \<open>None\<close>, which has no \<open>date\<close>.\<close>

definition picker_date :: "time_text option \<Rightarrow> error + (int \<times> int \<times> int)" where
  "picker_date d =
     (case d of
        None \<Rightarrow> Inl AttributeError
      | Some txt \<Rightarrow> (case to_datetime txt of Inl e \<Rightarrow> Inl e | Inr t \<Rightarrow> Inr (date_of t)))"

definition sort_by_time :: "merged_row list \<Rightarrow> merged_row list" where
  "sort_by_time df = sort_key (\<lambda>r. ts_key (mr_time r)) df"

definition date_filter :: "int \<times> int \<times> int \<Rightarrow> int \<times> int \<times> int \<Rightarrow> merged_row list \<Rightarrow> merged_row list" where
  "date_filter start end df =
     sort_by_time (filter (\<lambda>r. date_of (mr_time r) \<ge> start \<and> date_of (mr_time r) \<le> end) df)"

text \<open>
  A comparison with \<open>NaN\<close> is false, and no infinity lies both at or above the bin edge
  and below the next one, so such rows are masked out.
\<close>

definition rpm_mask :: "real \<Rightarrow> merged_row \<Rightarrow> bool" where
  "rpm_mask rpm_bin r =
     (case mr_cols r Ch1 S1 of
        Num v \<Rightarrow> v \<ge> rpm_bin \<and> v < rpm_bin + 0.5
      | PosInf \<Rightarrow> False
      | NegInf \<Rightarrow> False
      | NaN \<Rightarrow> False)"

definition rpm_filter :: "real \<Rightarrow> merged_row list \<Rightarrow> merged_row list" where
  "rpm_filter rpm_bin df = sort_by_time (filter (rpm_mask rpm_bin) df)"

definition combine_filtered :: "merged_row list \<Rightarrow> merged_row list \<Rightarrow> merged_row list" where
  "combine_filtered df_filtered rpm_filtered =
     sort_by_time (map fst (merge_inner (\<lambda>r. (mr_id r, mr_time r)) (\<lambda>r. (mr_id r, mr_time r))
                                      df_filtered rpm_filtered))"

text \<open>
  The mean of the values present, \<open>NaN\<close> being skipped: no value present gives \<open>NaN\<close>,
  an infinity among them gives that infinity, and both infinities give \<open>NaN\<close>.
\<close>

definition nanmean :: "number list \<Rightarrow> number" where
  "nanmean vs =
     (let present = filter (\<lambda>v. v \<noteq> NaN) vs;
          finite = concat (map (\<lambda>v. case v of Num x \<Rightarrow> [x] | PosInf \<Rightarrow> [] | NegInf \<Rightarrow> []
                                          | NaN \<Rightarrow> []) present)
      in if present = [] then NaN
         else if PosInf \<in> set present then (if NegInf \<in> set present then NaN else PosInf)
         else if NegInf \<in> set present then NegInf
         else Num (sum_list finite / real (length present)))"

text \<open>
  \<open>.resample('D').mean()\<close>: one bin per calendar day from the first to the last day of the
  series, empty days included; the index is the day's ordinal.
\<close>

definition resample_D_mean :: "(timestamp \<times> number) list \<Rightarrow> (int \<times> number) list" where
  "resample_D_mean s =
     (if s = [] then []
      else let days = map (\<lambda>p. toordinal (fst p)) s;
               lo = fold min days (hd days);
               hi = fold max days (hd days)
           in map (\<lambda>d. (d, nanmean (map snd (filter (\<lambda>p. toordinal (fst p) = d) s)))) [lo..hi])"

text \<open>
  \<open>.rolling(window=w, min_periods=1).mean()\<close> on a series of values. The rolling
  aggregation first prepares its values by replacing every infinite one by \<open>NaN\<close>; the
  result at a position is then the mean of the values present in its window, and
  \<open>NaN\<close> when there is none.
\<close>

fun drop_inf :: "number \<Rightarrow> number" where
  "drop_inf PosInf = NaN"
| "drop_inf NegInf = NaN"
| "drop_inf (Num x) = Num x"
| "drop_inf NaN = NaN"

definition rolling_mean :: "nat \<Rightarrow> number list \<Rightarrow> number list" where
  "rolling_mean w ys =
     (let prepared = map drop_inf ys
      in map (\<lambda>i. nanmean (drop (Suc i - w) (take (Suc i) prepared))) [0..<length prepared])"

definition rolling :: "int \<Rightarrow> number list \<Rightarrow> error + number list" where
  "rolling ma_days ys = (if ma_days < 1 then Inl ValueError else Inr (rolling_mean (nat ma_days) ys))"

fun str_nat :: "nat \<Rightarrow> string" where
  "str_nat n = (if n < 10 then [''0123456789'' ! n] else str_nat (n div 10) @ [''0123456789'' ! (n mod 10)])"

definition str_int :: "int \<Rightarrow> string" where
  "str_int i = (if i < 0 then CHR ''-'' # str_nat (nat (- i)) else str_nat (nat i))"

record scatter =
  sc_x :: "int list"
  sc_y :: "number list"
  sc_mode :: string
  sc_name :: string
  sc_line_color :: string
  sc_line_width :: real
  sc_line_shape :: string
  sc_marker_color :: string
  sc_marker_size :: real
  sc_connectgaps :: bool
  sc_opacity :: real

record figure =
  fig_traces :: "scatter list"
  fig_xaxis_title :: string
  fig_yaxis_title :: string
  fig_yaxis_range :: "real option \<times> real option"
  fig_showlegend :: bool
  fig_height :: int
  fig_legend_title :: string

definition column :: "channel \<Rightarrow> sensor \<Rightarrow> merged_row list \<Rightarrow> (timestamp \<times> number) list" where
  "column ch s df = map (\<lambda>r. (mr_time r, mr_cols r ch s)) df"

text \<open>One pass of the loop \<open>for ch in CHANNELS\<close>: the trace of channel \<open>ch\<close>.\<close>

definition channel_trace :: "merged_row list \<Rightarrow> sensor \<Rightarrow> int \<Rightarrow> channel \<Rightarrow> error + scatter" where
  "channel_trace final_df selected_sensor ma_days ch =
     (let daily = resample_D_mean (column ch selected_sensor final_df)
      in case rolling ma_days (map snd daily) of
           Inl e \<Rightarrow> Inl e
         | Inr ma_data \<Rightarrow>
             Inr \<lparr>sc_x = map fst daily, sc_y = ma_data, sc_mode = ''lines+markers'',
                  sc_name = ''Channel '' @ channel_name ch @ '' ('' @ str_int ma_days @ ''-day MA)'',
                  sc_line_color = COLORS ch, sc_line_width = 1.5, sc_line_shape = ''linear'',
                  sc_marker_color = COLORS ch, sc_marker_size = 5,
                  sc_connectgaps = True, sc_opacity = 0.6\<rparr>)"

fun add_traces :: "merged_row list \<Rightarrow> sensor \<Rightarrow> int \<Rightarrow> channel list \<Rightarrow> error + scatter list" where
  "add_traces final_df selected_sensor ma_days [] = Inr []"
| "add_traces final_df selected_sensor ma_days (ch # chs) =
     (case channel_trace final_df selected_sensor ma_days ch of
        Inl e \<Rightarrow> Inl e
      | Inr tr \<Rightarrow>
          (case add_traces final_df selected_sensor ma_days chs of
             Inl e \<Rightarrow> Inl e
           | Inr trs \<Rightarrow> Inr (tr # trs)))"

text \<open>
  The callback \<open>update_graph\<close>. The figure's title text is presentation only and is left
  out of the record; every other argument of the source is kept.
\<close>

definition update_graph ::
  "database \<Rightarrow> string \<Rightarrow> sensor \<Rightarrow> real \<Rightarrow> time_text option \<Rightarrow> time_text option
     \<Rightarrow> real option \<Rightarrow> real option \<Rightarrow> int \<Rightarrow> error + figure" where
  "update_graph db selected_metric selected_sensor rpm_bin start_date end_date y_min y_max ma_days =
     (case load_data db selected_metric of
        Inl e \<Rightarrow> Inl e
      | Inr (merged_df1, merged_df2, metric) \<Rightarrow>
     (case picker_date start_date of
        Inl e \<Rightarrow> Inl e
      | Inr start \<Rightarrow>
     (case picker_date end_date of
        Inl e \<Rightarrow> Inl e
      | Inr end \<Rightarrow>
     (let df_filtered = date_filter start end merged_df1;
          rpm_filtered = rpm_filter rpm_bin merged_df2;
          final_df = combine_filtered df_filtered rpm_filtered
      in case add_traces final_df selected_sensor ma_days CHANNELS of
           Inl e \<Rightarrow> Inl e
         | Inr traces \<Rightarrow>
             Inr \<lparr>fig_traces = traces, fig_xaxis_title = ''Time'', fig_yaxis_title = ''Value'',
                  fig_yaxis_range = (y_min, y_max), fig_showlegend = True, fig_height = 600,
                  fig_legend_title = ''Channel''\<rparr>))))"

text \<open>
  The state of the page's widgets, and the wiring of the callback: its inputs are the
  metric, sensor and RPM dropdowns, the date picker, the two axis inputs and the slider.
\<close>

record widgets =
  metric_dropdown :: string
  sensor_dropdown :: sensor
  channel_dropdown :: "channel list"
  rpm_dropdown :: real
  ma_slider :: int
  y_min_input :: "real option"
  y_max_input :: "real option"
  date_picker_start :: "time_text option"
  date_picker_end :: "time_text option"

definition sensor_graph :: "database \<Rightarrow> widgets \<Rightarrow> error + figure" where
  "sensor_graph db w =
     update_graph db (metric_dropdown w) (sensor_dropdown w) (rpm_dropdown w)
       (date_picker_start w) (date_picker_end w) (y_min_input w) (y_max_input w) (ma_slider w)"

subsection \<open>Export\<close>

text \<open>
  The request handed to the image renderer, which stands for the bytes it returns, and
  the download built from it. Formatting a number with \<open>str\<close> is a parameter.
\<close>

record image =
  img_figure :: figure
  img_format :: string
  img_width :: int
  img_height :: int
  img_scale :: real
  img_engine :: string

record download =
  dl_content :: image
  dl_filename :: string

definition to_image :: "figure \<Rightarrow> string \<Rightarrow> int \<Rightarrow> int \<Rightarrow> real \<Rightarrow> string \<Rightarrow> image" where
  "to_image fig fmt w h scale engine =
     \<lparr>img_figure = fig, img_format = fmt, img_width = w, img_height = h,
      img_scale = scale, img_engine = engine\<rparr>"

definition send_bytes :: "image \<Rightarrow> string \<Rightarrow> download" where
  "send_bytes img_bytes filename = \<lparr>dl_content = img_bytes, dl_filename = filename\<rparr>"

definition truthy :: "int option \<Rightarrow> bool" where
  "truthy n_clicks = (case n_clicks of None \<Rightarrow> False | Some n \<Rightarrow> n \<noteq> 0)"

definition download_graph ::
  "(real \<Rightarrow> string) \<Rightarrow> int option \<Rightarrow> string \<Rightarrow> sensor \<Rightarrow> real \<Rightarrow> int \<Rightarrow> figure \<Rightarrow> download option" where
  "download_graph str_num n_clicks selected_metric selected_sensor rpm_bin ma_days fig =
     (if truthy n_clicks
      then let filename = selected_metric @ ''_Sensor_'' @ sensor_name selected_sensor @ ''_RPM_''
                            @ str_num rpm_bin @ ''-'' @ str_num (rpm_bin + 0.5) @ ''_MA_''
                            @ str_int ma_days @ ''days.png'';
               img_bytes = to_image fig ''png'' 1920 1080 2.0 ''kaleido''
           in Some (send_bytes img_bytes filename)
      else None)"

section \<open>The weekly corruption heatmap (app_corruption.py)\<close>

record week_stats =
  ws_week :: int
  ws_id :: int
  ws_is_corrupted :: int
  ws_corruption_percentage :: real

text \<open>\<open>(df_year[selected_sensor] == 1).astype(int)\<close>\<close>

definition is_corrupted :: "channel \<times> sensor \<Rightarrow> merged_row \<Rightarrow> int" where
  "is_corrupted selected_sensor r =
     (if mr_cols r (fst selected_sensor) (snd selected_sensor) = Num 1 then 1 else 0)"

definition week_of :: "merged_row \<Rightarrow> int" where
  "week_of r = isocalendar_week (mr_time r)"

text \<open>
  \<open>groupby('week').agg({'id': 'count', 'is_corrupted': 'sum'}).reset_index()\<close> followed
  by the percentage column: one row per week that occurs, in increasing order of week.
  \<open>week_row\<close> is the aggregate of one group.
\<close>

definition week_group :: "merged_row list \<Rightarrow> int \<Rightarrow> merged_row list" where
  "week_group df_year w = filter (\<lambda>r. week_of r = w) df_year"

definition week_row :: "channel \<times> sensor \<Rightarrow> merged_row list \<Rightarrow> int \<Rightarrow> week_stats" where
  "week_row selected_sensor df_year w =
     (let total = int (length (week_group df_year w));
          corrupted = sum_list (map (is_corrupted selected_sensor) (week_group df_year w))
      in \<lparr>ws_week = w, ws_id = total, ws_is_corrupted = corrupted,
          ws_corruption_percentage = real_of_int corrupted / real_of_int total * 100\<rparr>)"

definition group_weeks :: "channel \<times> sensor \<Rightarrow> merged_row list \<Rightarrow> week_stats list" where
  "group_weeks selected_sensor df_year =
     map (week_row selected_sensor df_year) (sort (remdups (map week_of df_year)))"

text \<open>
  \<open>pd.merge(all_weeks, weekly_stats, on='week', how='left')\<close>: every week of the left
  table, with its matching rows or, when there is none, one row of missing values.
\<close>

definition merge_left :: "int list \<Rightarrow> week_stats list \<Rightarrow> (int \<times> week_stats option) list" where
  "merge_left all_weeks stats =
     concat (map (\<lambda>w. case filter (\<lambda>s. ws_week s = w) stats of
                         [] \<Rightarrow> [(w, None)]
                       | m # ms \<Rightarrow> map (\<lambda>s. (w, Some s)) (m # ms)) all_weeks)"

fun fillna :: "int \<times> week_stats option \<Rightarrow> week_stats" where
  "fillna (w, None) = \<lparr>ws_week = w, ws_id = 0, ws_is_corrupted = 0, ws_corruption_percentage = 0\<rparr>"
| "fillna (w, Some s) = s"

definition weekly_stats :: "merged_row list \<Rightarrow> int \<Rightarrow> channel \<times> sensor \<Rightarrow> week_stats list" where
  "weekly_stats merged_df1 selected_year selected_sensor =
     (let df_year = filter (\<lambda>r. ts_year (mr_time r) = selected_year) merged_df1
      in map fillna (merge_left [1..53] (group_weeks selected_sensor df_year)))"

definition cell_text :: "week_stats \<Rightarrow> string" where
  "cell_text s = ''Week '' @ str_int (ws_week s) @ ''<br>'' @ str_int (ws_id s) @ '' total<br>''
                 @ str_int (ws_is_corrupted s) @ '' corrupted''"

text \<open>The assignment \<open>matrix[row, col] = v\<close>.\<close>

definition set_cell :: "'a list list \<Rightarrow> nat \<Rightarrow> nat \<Rightarrow> 'a \<Rightarrow> 'a list list" where
  "set_cell m row col v = m[row := (m ! row)[col := v]]"

text \<open>
  The body of \<open>for i in range(53)\<close>. For these \<open>i\<close> the row \<open>6 - i // 8\<close> is not
  negative, so the natural-number subtraction is the source's.
\<close>

definition populate_step ::
  "week_stats list \<Rightarrow> nat \<Rightarrow> real list list \<times> string option list list
     \<Rightarrow> real list list \<times> string option list list" where
  "populate_step stats i m =
     (let row = 6 - i div 8; col = i mod 8
      in if i < length stats
         then (set_cell (fst m) row col (ws_corruption_percentage (stats ! i)),
               set_cell (snd m) row col (Some (cell_text (stats ! i))))
         else m)"

definition populate :: "week_stats list \<Rightarrow> real list list \<times> string option list list" where
  "populate stats =
     fold (populate_step stats) [0..<53] (replicate 7 (replicate 8 0), replicate 7 (replicate 8 None))"

record heatmap =
  hm_z :: "real list list"
  hm_text :: "string option list list"
  hm_texttemplate :: string
  hm_colorscale :: "(real \<times> string) list"
  hm_showscale :: bool
  hm_zmin :: real
  hm_zmax :: real
  hm_title :: string
  hm_height :: int
  hm_width :: int
  hm_showlegend :: bool

definition update_heatmap :: "merged_row list \<Rightarrow> int \<Rightarrow> channel \<times> sensor \<Rightarrow> heatmap" where
  "update_heatmap merged_df1 selected_year selected_sensor =
     (let m = populate (weekly_stats merged_df1 selected_year selected_sensor)
      in \<lparr>hm_z = fst m, hm_text = snd m,
          hm_texttemplate = ''%{text}<br>%{z:.1f}% corrupted'',
          hm_colorscale = [(0, ''green''), (0.5, ''yellow''), (1, ''red'')],
          hm_showscale = True, hm_zmin = 0, hm_zmax = 100,
          hm_title = ''Weekly Corruption Status for '' @ channel_name (fst selected_sensor)
                     @ sensor_name (snd selected_sensor) @ '' ('' @ str_int selected_year @ '')'',
          hm_height = 800, hm_width = 1200, hm_showlegend = False\<rparr>)"

text \<open>
  Where a cell's value lies on the colour scale between \<open>zmin\<close> and \<open>zmax\<close>, and the
  colour of the scale's stop at that place, when the value falls on a stop.
\<close>

definition colour_stop :: "heatmap \<Rightarrow> nat \<Rightarrow> nat \<Rightarrow> string option" where
  "colour_stop hm row col =
     map_of (hm_colorscale hm) ((hm_z hm ! row ! col - hm_zmin hm) / (hm_zmax hm - hm_zmin hm))"

section \<open>An example store\<close>

definition at_hour :: "int \<Rightarrow> int \<Rightarrow> int \<Rightarrow> int \<Rightarrow> timestamp" where
  "at_hour y m d h = \<lparr>ts_year = y, ts_month = m, ts_day = d, ts_hour = h, ts_minute = 0,
                      ts_second = 0, ts_nanosecond = 0\<rparr>"

definition demo_values :: "int \<Rightarrow> real \<Rightarrow> value_row" where
  "demo_values i v =
     \<lparr>val_id = i, val_cols = (\<lambda>ch s. case ch of Ch1 \<Rightarrow> Num v | Ch2 \<Rightarrow> Num (2 * v) | Ch3 \<Rightarrow> NaN)\<rparr>"

definition demo_main :: "main_row list" where
  "demo_main = [\<lparr>main_id = 1, main_time = Parses (at_hour 2023 1 2 8)\<rparr>,
                \<lparr>main_id = 2, main_time = Parses (at_hour 2023 1 2 20)\<rparr>,
                \<lparr>main_id = 3, main_time = Parses (at_hour 2023 1 4 9)\<rparr>,
                \<lparr>main_id = 4, main_time = Parses (at_hour 2023 1 5 23)\<rparr>]"

definition demo_rpm :: "value_row list" where
  "demo_rpm = [demo_values 1 10.2, demo_values 2 10.4, demo_values 4 10, demo_values 3 11,
               demo_values 5 10.1]"

definition demo_std_dev :: "value_row list" where
  "demo_std_dev = [demo_values 1 1, demo_values 2 3, demo_values 4 5, demo_values 9 7]"

definition demo_rms :: "value_row list" where
  "demo_rms = [demo_values 7 1, demo_values 8 2]"

definition demo_db :: database where
  "demo_db = \<lparr>tbl_main_data = Some demo_main, tbl_rpm = Some demo_rpm,
              tbl_named = (\<lambda>name. if name = ''std_dev'' then Some demo_std_dev
                                   else if name = ''rms'' then Some demo_rms else None)\<rparr>"

definition demo_widgets :: widgets where
  "demo_widgets = \<lparr>metric_dropdown = ''std_dev'', sensor_dropdown = S1, channel_dropdown = [Ch1],
                   rpm_dropdown = 10, ma_slider = 1, y_min_input = None, y_max_input = None,
                   date_picker_start = Some (Parses (at_hour 2023 1 2 0)),
                   date_picker_end = Some (Parses (at_hour 2023 1 5 0))\<rparr>"

definition demo_frame :: "merged_row list" where
  "demo_frame = [\<lparr>mr_id = 1, mr_time = at_hour 2023 1 2 8, mr_cols = (\<lambda>ch s. Num 10.2)\<rparr>,
                 \<lparr>mr_id = 2, mr_time = at_hour 2023 1 5 23, mr_cols = (\<lambda>ch s. Num 10.5)\<rparr>,
                 \<lparr>mr_id = 3, mr_time = at_hour 2023 1 6 0, mr_cols = (\<lambda>ch s. Num 10)\<rparr>,
                 \<lparr>mr_id = 4, mr_time = at_hour 2023 1 3 0, mr_cols = (\<lambda>ch s. NaN)\<rparr>]"

definition flagged :: "int \<Rightarrow> timestamp \<Rightarrow> real \<Rightarrow> merged_row" where
  "flagged i t flag = \<lparr>mr_id = i, mr_time = t, mr_cols = (\<lambda>ch s. Num flag)\<rparr>"

definition demo_flags :: "merged_row list" where
  "demo_flags = [flagged 1 (at_hour 2023 1 2 8) 1, flagged 2 (at_hour 2023 1 3 9) 0,
                 flagged 3 (at_hour 2023 1 10 7) 1, flagged 4 (at_hour 2022 12 30 7) 1,
                 flagged 5 (at_hour 2023 1 1 12) 0]"

definition demo_inf :: "merged_row list" where
  "demo_inf = [\<lparr>mr_id = 1, mr_time = at_hour 2023 1 2 8, mr_cols = (\<lambda>ch s. Num 2)\<rparr>,
               \<lparr>mr_id = 2, mr_time = at_hour 2023 1 3 9, mr_cols = (\<lambda>ch s. PosInf)\<rparr>]"

definition demo_figure :: figure where
  "demo_figure = \<lparr>fig_traces = [], fig_xaxis_title = ''Time'', fig_yaxis_title = ''Value'',
                    fig_yaxis_range = (None, None), fig_showlegend = True, fig_height = 600,
                    fig_legend_title = ''Channel''\<rparr>"

section \<open>Properties of the time-series viewer\<close>

lemmas demo_defs = at_hour_def demo_values_def demo_main_def demo_rpm_def demo_std_dev_def
  demo_rms_def demo_db_def demo_widgets_def demo_frame_def flagged_def demo_flags_def
  demo_inf_def

lemmas calendar_defs = date_of_def ts_key_def is_leap_def days_before_year_def days_in_month_def
  days_before_month_def ymd2ord_def toordinal_def isoweek1monday_def isocalendar_week_def


lemma mset_sort_by_time: "mset (sort_by_time df) = mset df"
  by (simp add: sort_by_time_def)

lemma set_sort_by_time: "set (sort_by_time df) = set df"
  by (simp add: sort_by_time_def)

lemma rpm_mask_iff:
  "rpm_mask B r \<longleftrightarrow> (\<exists>v. mr_cols r Ch1 S1 = Num v \<and> B \<le> v \<and> v < B + 0.5)"
  by (simp add: rpm_mask_def split: number.split)

text \<open>
  C6. For every bin edge \<open>B\<close>, the RPM filter keeps exactly the rows (each as often as it
  occurs) whose reference value \<open>v\<close> in column \<open>ch1s1\<close> satisfies
  \<open>B \<le> v < B + 0.5\<close>; a row whose reference value is missing or infinite is dropped.
\<close>
theorem rpm_filter_exact:
  "mset (rpm_filter B df)
     = filter_mset (\<lambda>r. \<exists>v. mr_cols r Ch1 S1 = Num v \<and> B \<le> v \<and> v < B + 0.5) (mset df)"
proof -
  have "rpm_mask B = (\<lambda>r. \<exists>v. mr_cols r Ch1 S1 = Num v \<and> B \<le> v \<and> v < B + 0.5)"
    by (rule ext) (rule rpm_mask_iff)
  then show ?thesis
    by (simp add: rpm_filter_def mset_sort_by_time)
qed

text \<open>
  C10. The date filter keeps exactly the rows whose calendar date lies between the start
  and the end date, both included; the time of day plays no part. So for a range whose
  start is not after its end, every row dated on the start date or on the end date is kept.
\<close>
theorem date_filter_inclusive:
  "mset (date_filter start end df)
     = filter_mset (\<lambda>r. start \<le> date_of (mr_time r) \<and> date_of (mr_time r) \<le> end) (mset df)
   \<and> (start \<le> end \<longrightarrow>
        (\<forall>r. r \<in> set df \<and> (date_of (mr_time r) = start \<or> date_of (mr_time r) = end)
              \<longrightarrow> r \<in> set (date_filter start end df)))"
  by (auto simp: date_filter_def mset_sort_by_time set_sort_by_time)

lemma length_filter_distinct_key:
  "distinct (map k xs) \<Longrightarrow> length (filter (\<lambda>x. k x = a) xs) \<le> 1"
  by (induction xs) (auto simp: filter_empty_conv image_iff)

lemma length_merge_inner:
  "length (merge_inner kl kr L R) = (\<Sum>l\<leftarrow>L. length (filter (\<lambda>r. kr r = kl l) R))"
  by (simp add: merge_inner_def length_concat comp_def)

lemma length_merge_inner_left:
  assumes "distinct (map kr R)"
  shows "length (merge_inner kl kr L R) \<le> length L"
proof -
  have "(\<Sum>l\<leftarrow>L. length (filter (\<lambda>r. kr r = kl l) R)) \<le> (\<Sum>l\<leftarrow>L. 1)"
    by (rule sum_list_mono) (use length_filter_distinct_key [OF assms] in simp)
  then show ?thesis
    by (simp add: length_merge_inner sum_list_triv)
qed

lemma merge_inner_Cons_right:
  "length (merge_inner kl kr L (r # R))
     = length (filter (\<lambda>l. kl l = kr r) L) + length (merge_inner kl kr L R)"
  by (induction L) (auto simp: merge_inner_def)

lemma length_merge_inner_right:
  assumes "distinct (map kl L)"
  shows "length (merge_inner kl kr L R) \<le> length R"
proof (induction R)
  case Nil
  then show ?case by (simp add: merge_inner_def)
next
  case (Cons r R)
  have "length (filter (\<lambda>l. kl l = kr r) L) \<le> 1"
    by (rule length_filter_distinct_key [OF assms])
  with Cons show ?case
    by (simp add: merge_inner_Cons_right)
qed

lemma set_merge_inner:
  "set (merge_inner kl kr L R) = {(l, r). l \<in> set L \<and> r \<in> set R \<and> kl l = kr r}"
  by (auto simp: merge_inner_def)

lemma filter_distinct_key_cases:
  assumes "distinct (map k xs)"
  shows "filter (\<lambda>x. k x = a) xs = [] \<and> a \<notin> k ` set xs
       \<or> (\<exists>x. filter (\<lambda>x. k x = a) xs = [x] \<and> k x = a \<and> x \<in> set xs)"
  using assms
proof (induction xs)
  case Nil
  then show ?case by simp
next
  case (Cons y ys)
  then show ?case
    by (cases "k y = a") (auto simp: filter_empty_conv image_iff)
qed

lemma map_fst_merge_inner:
  assumes "distinct (map kr R)"
  shows "map fst (merge_inner kl kr L R) = filter (\<lambda>l. kl l \<in> kr ` set R) L"
proof (induction L)
  case Nil
  then show ?case by (simp add: merge_inner_def)
next
  case (Cons l L)
  have step: "merge_inner kl kr (l # L) R
                = map (Pair l) (filter (\<lambda>r. kr r = kl l) R) @ merge_inner kl kr L R"
    by (simp add: merge_inner_def)
  from filter_distinct_key_cases [OF assms, of "kl l"] Cons show ?case
    by (auto simp: step intro: rev_image_eqI)
qed

lemma convert_time_ids:
  "convert_time xs = Inr rows \<Longrightarrow> map mr_id rows = map (\<lambda>p. main_id (fst p)) xs"
  by (induction xs arbitrary: rows rule: convert_time.induct) (auto split: sum.splits)

lemma convert_time_length:
  "convert_time xs = Inr rows \<Longrightarrow> length rows = length xs"
  by (induction xs arbitrary: rows rule: convert_time.induct) (auto split: sum.splits)

lemma load_data_Inr:
  assumes "load_data db metric = Inr (m1, m2, m)"
      and "tbl_main_data db = Some df" and "tbl_named db metric = Some df1"
  shows "convert_time (merge_inner main_id val_id df df1) = Inr m1"
  using assms by (auto simp: load_data_def read_sql_def split: option.splits sum.splits)

text \<open>
  C4. When the identifiers are unique in both tables, the loader's join of sample rows with
  metric rows keeps exactly the sample rows whose identifier occurs in the metric table, in
  their order, pairs rows only on equal identifiers, and has at most
  \<open>min (len samples) (len metric rows)\<close> rows.
\<close>
theorem load_data_inner_join:
  assumes "tbl_main_data db = Some df" and "tbl_named db metric = Some df1"
      and "distinct (map main_id df)" and "distinct (map val_id df1)"
      and "load_data db metric = Inr (merged_df1, merged_df2, m)"
  shows "map mr_id merged_df1 = filter (\<lambda>i. i \<in> val_id ` set df1) (map main_id df)
       \<and> set (merge_inner main_id val_id df df1)
           = {(l, r). l \<in> set df \<and> r \<in> set df1 \<and> main_id l = val_id r}
       \<and> length merged_df1 \<le> min (length df) (length df1)"
proof -
  let ?j = "merge_inner main_id val_id df df1"
  have conv: "convert_time ?j = Inr merged_df1"
    by (rule load_data_Inr [OF assms(5) assms(1) assms(2)])
  have "map mr_id merged_df1 = map main_id (map fst ?j)"
    using convert_time_ids [OF conv] by (simp add: comp_def)
  also have "\<dots> = map main_id (filter (\<lambda>l. main_id l \<in> val_id ` set df1) df)"
    by (simp only: map_fst_merge_inner [OF assms(4)])
  also have "\<dots> = filter (\<lambda>i. i \<in> val_id ` set df1) (map main_id df)"
    by (simp add: filter_map comp_def)
  finally have ids: "map mr_id merged_df1 = filter (\<lambda>i. i \<in> val_id ` set df1) (map main_id df)" .
  have len: "length merged_df1 = length ?j"
    by (rule convert_time_length [OF conv])
  have "length ?j \<le> length df" by (rule length_merge_inner_left [OF assms(4)])
  moreover have "length ?j \<le> length df1" by (rule length_merge_inner_right [OF assms(3)])
  ultimately have "length merged_df1 \<le> min (length df) (length df1)"
    using len by simp
  with ids show ?thesis
    by (simp add: set_merge_inner)
qed

lemma merge_inner_no_match:
  "kr ` set R \<inter> kl ` set L = {} \<Longrightarrow> merge_inner kl kr L R = []"
  by (auto simp: merge_inner_def filter_empty_conv)

text \<open>
  C7. When no row of the metric table matches a sample identifier, loading returns an
  empty first result, and as second result the join of samples with RPM rows, which does
  not depend on the metric table; no error is raised by the empty join.
\<close>
theorem load_data_no_matching_rows:
  assumes "tbl_main_data db = Some df" and "tbl_rpm db = Some df_rpm"
      and "tbl_named db metric = Some df1"
      and "val_id ` set df1 \<inter> main_id ` set df = {}"
      and "convert_time (merge_inner main_id val_id df df_rpm) = Inr merged_df2"
  shows "load_data db metric = Inr ([], merged_df2, metric)"
  using assms by (simp add: load_data_def read_sql_def merge_inner_no_match)

lemma nanmean_single: "nanmean [v] = v"
  by (cases v) (simp_all add: nanmean_def)

lemma rolling_window_one:
  "i < length ys \<Longrightarrow> drop (Suc i - 1) (take (Suc i) ys) = [ys ! i]"
  by (simp add: take_Suc_conv_app_nth)

lemma rolling_mean_one: "rolling_mean 1 ys = map drop_inf ys"
proof -
  let ?p = "map drop_inf ys"
  have "map (\<lambda>i. nanmean (drop (Suc i - 1) (take (Suc i) ?p))) [0..<length ?p]
          = map (\<lambda>i. ?p ! i) [0..<length ?p]"
    by (rule map_cong) (simp_all add: take_Suc_conv_app_nth nanmean_single del: length_map)
  also have "\<dots> = ?p" by (rule map_nth)
  finally show ?thesis by (simp add: rolling_mean_def Let_def)
qed

lemma drop_inf_finite: "v \<noteq> PosInf \<Longrightarrow> v \<noteq> NegInf \<Longrightarrow> drop_inf v = v"
  by (cases v) simp_all

lemma map_drop_inf_finite:
  "PosInf \<notin> set ys \<Longrightarrow> NegInf \<notin> set ys \<Longrightarrow> map drop_inf ys = ys"
  by (induction ys) (auto simp: drop_inf_finite)

text \<open>
  C5. The rolling mean of window 1 (minimum one period) replaces the infinite values of a
  series by \<open>NaN\<close> and changes nothing else. So it returns unchanged every series
  that has no infinite value, and with a one-day window each trace shows the daily means
  themselves, except that an infinite daily mean is shown as a missing value.
\<close>
theorem rolling_window_one_finite:
  "rolling 1 ys = Inr (map drop_inf ys)
   \<and> (PosInf \<notin> set ys \<and> NegInf \<notin> set ys \<longrightarrow> rolling 1 ys = Inr ys)
   \<and> (\<exists>tr. channel_trace final_df selected_sensor 1 ch = Inr tr
          \<and> sc_x tr = map fst (resample_D_mean (column ch selected_sensor final_df))
          \<and> sc_y tr
              = map drop_inf (map snd (resample_D_mean (column ch selected_sensor final_df))))"
  using rolling_mean_one map_drop_inf_finite
  by (simp add: rolling_def channel_trace_def Let_def)

text \<open>
  C8. On a click, the displayed figure is rendered as a PNG of 1920 by 1080 at scale 2, and
  the file name contains the metric, the sensor, both edges of the RPM bin and the
  moving-average window followed by \<open>days\<close>.
\<close>
theorem download_graph_export:
  assumes "n_clicks = Some n" and "n \<noteq> 0"
  shows "\<exists>d. download_graph str_num n_clicks selected_metric selected_sensor rpm_bin ma_days fig = Some d
           \<and> img_figure (dl_content d) = fig
           \<and> img_format (dl_content d) = ''png''
           \<and> img_width (dl_content d) = 1920 \<and> img_height (dl_content d) = 1080
           \<and> img_scale (dl_content d) = 2
           \<and> dl_filename d = selected_metric @ ''_Sensor_'' @ sensor_name selected_sensor @ ''_RPM_''
                @ str_num rpm_bin @ ''-'' @ str_num (rpm_bin + 0.5) @ ''_MA_'' @ str_int ma_days
                @ ''days.png''
           \<and> sublist selected_metric (dl_filename d)
           \<and> sublist (sensor_name selected_sensor) (dl_filename d)
           \<and> sublist (str_num rpm_bin) (dl_filename d)
           \<and> sublist (str_num (rpm_bin + 0.5)) (dl_filename d)
           \<and> sublist (str_int ma_days @ ''days'') (dl_filename d)"
proof -
  let ?f = "selected_metric @ ''_Sensor_'' @ sensor_name selected_sensor @ ''_RPM_''
              @ str_num rpm_bin @ ''-'' @ str_num (rpm_bin + 0.5) @ ''_MA_'' @ str_int ma_days
              @ ''days.png''"
  have s1: "sublist selected_metric ?f"
    unfolding sublist_def by (rule exI [of _ "[]"]) simp
  have s2: "sublist (sensor_name selected_sensor) ?f"
    unfolding sublist_def by (rule exI [of _ "selected_metric @ ''_Sensor_''"]) simp
  have s3: "sublist (str_num rpm_bin) ?f"
    unfolding sublist_def
    by (rule exI [of _ "selected_metric @ ''_Sensor_'' @ sensor_name selected_sensor @ ''_RPM_''"])
       simp
  have s4: "sublist (str_num (rpm_bin + 0.5)) ?f"
    unfolding sublist_def
    by (rule exI [of _ "selected_metric @ ''_Sensor_'' @ sensor_name selected_sensor @ ''_RPM_''
                         @ str_num rpm_bin @ ''-''"]) simp
  have s5: "sublist (str_int ma_days @ ''days'') ?f"
    unfolding sublist_def
    by (rule exI [of _ "selected_metric @ ''_Sensor_'' @ sensor_name selected_sensor @ ''_RPM_''
                         @ str_num rpm_bin @ ''-'' @ str_num (rpm_bin + 0.5) @ ''_MA_''"],
        rule exI [of _ "''.png''"]) simp
  show ?thesis
    using assms s1 s2 s3 s4 s5
    by (simp add: download_graph_def truthy_def to_image_def send_bytes_def Let_def)
qed

subsection \<open>The properties on the example store\<close>

text \<open>A row of 23:00 on the end date is kept.\<close>
theorem date_filter_inclusive_witness:
  "map mr_id (date_filter (2023, 1, 2) (2023, 1, 5) demo_frame) = [1, 4, 2]
   \<and> demo_frame ! 1 \<in> set (date_filter (2023, 1, 2) (2023, 1, 5) demo_frame)"
  using date_filter_inclusive [of "(2023, 1, 2)" "(2023, 1, 5)" demo_frame]
  by (simp add: demo_defs date_filter_def sort_by_time_def calendar_defs)

text \<open>Bin 10 keeps the values 10.2 and 10, and drops 10.5 and the missing value.\<close>
theorem rpm_filter_exact_witness:
  "map mr_id (rpm_filter 10 demo_frame) = [1, 3]"
  using rpm_filter_exact [of 10 demo_frame]
  by (simp add: demo_defs rpm_filter_def rpm_mask_def sort_by_time_def calendar_defs)

text \<open>Sample 3 has no metric row and metric row 9 has no sample: both are dropped.\<close>
theorem load_data_inner_join_witness:
  "\<exists>m1 m2. load_data demo_db ''std_dev'' = Inr (m1, m2, ''std_dev'')
      \<and> map mr_id m1 = [1, 2, 4] \<and> length m1 \<le> min (length demo_main) (length demo_std_dev)"
proof -
  obtain m1 m2 where L: "load_data demo_db ''std_dev'' = Inr (m1, m2, ''std_dev'')"
    by (simp add: demo_defs load_data_def read_sql_def merge_inner_def)
  have a: "tbl_main_data demo_db = Some demo_main" by (simp add: demo_db_def)
  have b: "tbl_named demo_db ''std_dev'' = Some demo_std_dev" by (simp add: demo_db_def)
  have c: "distinct (map main_id demo_main)" by (simp add: demo_defs)
  have d: "distinct (map val_id demo_std_dev)" by (simp add: demo_defs)
  from load_data_inner_join [OF a b c d L]
  have "map mr_id m1 = [1, 2, 4] \<and> length m1 \<le> min (length demo_main) (length demo_std_dev)"
    by (simp add: demo_defs)
  with L show ?thesis by simp
qed

text \<open>The table \<open>rms\<close> of the example store has no matching row.\<close>
theorem load_data_no_matching_rows_witness:
  "\<exists>m2. load_data demo_db ''rms'' = Inr ([], m2, ''rms'') \<and> map mr_id m2 = [1, 2, 3, 4]"
proof -
  obtain m2 where C: "convert_time (merge_inner main_id val_id demo_main demo_rpm) = Inr m2"
      and ids: "map mr_id m2 = [1, 2, 3, 4]"
    by (simp add: demo_defs merge_inner_def)
  have a: "tbl_main_data demo_db = Some demo_main" by (simp add: demo_db_def)
  have b: "tbl_rpm demo_db = Some demo_rpm" by (simp add: demo_db_def)
  have c: "tbl_named demo_db ''rms'' = Some demo_rms" by (simp add: demo_db_def)
  have d: "val_id ` set demo_rms \<inter> main_id ` set demo_main = {}" by (simp add: demo_defs)
  from load_data_no_matching_rows [OF a b c d C] ids show ?thesis by simp
qed

text \<open>A series with a gap and no infinite value.\<close>
theorem rolling_window_one_finite_witness:
  "PosInf \<notin> set [Num 2, NaN, Num 5] \<and> NegInf \<notin> set [Num 2, NaN, Num 5]
   \<and> rolling 1 [Num 2, NaN, Num 5] = Inr [Num 2, NaN, Num 5]"
  using rolling_window_one_finite [of "[Num 2, NaN, Num 5]" "[]" S1 Ch1] by simp

text \<open>
  A frame whose second day holds an infinite value: the daily means are 2 and infinity,
  and the one-day rolling mean shows 2 and a missing value.
\<close>
theorem rolling_window_one_counterexample:
  "map snd (resample_D_mean (column Ch1 S1 demo_inf)) = [Num 2, PosInf]
   \<and> rolling 1 (map snd (resample_D_mean (column Ch1 S1 demo_inf))) = Inr [Num 2, NaN]
   \<and> rolling 1 (map snd (resample_D_mean (column Ch1 S1 demo_inf)))
       \<noteq> Inr (map snd (resample_D_mean (column Ch1 S1 demo_inf)))"
  by code_simp

text \<open>One click, with a number format that prints every number as 10.\<close>
theorem download_graph_export_witness:
  "\<exists>d. download_graph (\<lambda>r. ''10'') (Some 1) ''std_dev'' S2 10 7 demo_figure = Some d
      \<and> dl_filename d = ''std_dev_Sensor_s2_RPM_10-10_MA_7days.png''
      \<and> img_figure (dl_content d) = demo_figure
      \<and> img_width (dl_content d) = 1920 \<and> img_height (dl_content d) = 1080
      \<and> img_scale (dl_content d) = 2"
  using download_graph_export [of "Some 1" 1 "\<lambda>r. ''10''" "''std_dev''" S2 10 7 demo_figure]
  by (auto simp: str_int_def)

subsection \<open>The series of the figure\<close>

lemma channel_trace_Inr:
  "1 \<le> ma_days \<Longrightarrow> \<exists>tr. channel_trace final_df s ma_days ch = Inr tr
      \<and> sc_line_color tr = COLORS ch \<and> sc_marker_color tr = COLORS ch
      \<and> sc_mode tr = ''lines+markers''
      \<and> sc_name tr = ''Channel '' @ channel_name ch @ '' ('' @ str_int ma_days @ ''-day MA)''"
  by (simp add: channel_trace_def rolling_def Let_def)

lemma add_traces_Inr:
  "1 \<le> ma_days \<Longrightarrow> \<exists>trs. add_traces final_df s ma_days chs = Inr trs
      \<and> map sc_line_color trs = map COLORS chs \<and> map sc_marker_color trs = map COLORS chs
      \<and> map sc_mode trs = map (\<lambda>ch. ''lines+markers'') chs
      \<and> map sc_name trs
          = map (\<lambda>ch. ''Channel '' @ channel_name ch @ '' ('' @ str_int ma_days @ ''-day MA)'') chs"
proof (induction chs)
  case Nil
  then show ?case by simp
next
  case (Cons ch chs)
  from channel_trace_Inr [OF Cons.prems, of final_df s ch] Cons.IH [OF Cons.prems]
  show ?case by auto
qed

lemma update_graph_Inr:
  assumes "load_data db selected_metric = Inr loaded"
      and "picker_date start_date = Inr start" and "picker_date end_date = Inr end"
      and "1 \<le> ma_days"
  shows "\<exists>fig. update_graph db selected_metric selected_sensor rpm_bin start_date end_date
                  y_min y_max ma_days = Inr fig
           \<and> map sc_line_color (fig_traces fig) = map COLORS CHANNELS
           \<and> map sc_marker_color (fig_traces fig) = map COLORS CHANNELS
           \<and> map sc_mode (fig_traces fig) = map (\<lambda>ch. ''lines+markers'') CHANNELS
           \<and> map sc_name (fig_traces fig)
               = map (\<lambda>ch. ''Channel '' @ channel_name ch @ '' ('' @ str_int ma_days @ ''-day MA)'')
                     CHANNELS"
proof -
  obtain merged_df1 merged_df2 metric where l: "loaded = (merged_df1, merged_df2, metric)"
    by (cases loaded) auto
  let ?final = "combine_filtered (date_filter start end merged_df1) (rpm_filter rpm_bin merged_df2)"
  from add_traces_Inr [OF assms(4), of ?final selected_sensor CHANNELS]
  obtain trs where t: "add_traces ?final selected_sensor ma_days CHANNELS = Inr trs"
      and c: "map sc_line_color trs = map COLORS CHANNELS"
      and m: "map sc_marker_color trs = map COLORS CHANNELS"
      and md: "map sc_mode trs = map (\<lambda>ch. ''lines+markers'') CHANNELS"
      and n: "map sc_name trs
          = map (\<lambda>ch. ''Channel '' @ channel_name ch @ '' ('' @ str_int ma_days @ ''-day MA)'') CHANNELS"
    by blast
  show ?thesis
    using assms(1-3) l t c m md n by (simp add: update_graph_def Let_def)
qed

lemma sensor_graph_any_selection:
  "sensor_graph db (w\<lparr>channel_dropdown := selection\<rparr>) = sensor_graph db w"
  by (simp add: sensor_graph_def)

text \<open>
  C1. The figure has one line-with-markers series for each channel of \<open>CHANNELS\<close>, in
  that channel's colour, whatever channels are selected: the callback does not read the
  channel dropdown. On the example store, with only \<open>ch1\<close> selected, the figure still
  holds the three series \<open>ch1\<close>, \<open>ch2\<close> and \<open>ch3\<close>.
\<close>
theorem sensor_graph_ignores_channel_dropdown:
  "channel_dropdown demo_widgets = [Ch1]
   \<and> (\<exists>fig. sensor_graph demo_db demo_widgets = Inr fig
         \<and> map sc_name (fig_traces fig)
             = [''Channel ch1 (1-day MA)'', ''Channel ch2 (1-day MA)'', ''Channel ch3 (1-day MA)'']
         \<and> map sc_mode (fig_traces fig) = [''lines+markers'', ''lines+markers'', ''lines+markers'']
         \<and> map sc_line_color (fig_traces fig) = [''blue'', ''red'', ''green''])"
proof -
  obtain m1 m2 where L: "load_data demo_db ''std_dev'' = Inr (m1, m2, ''std_dev'')"
    by (simp add: demo_defs load_data_def read_sql_def merge_inner_def)
  have s: "picker_date (date_picker_start demo_widgets) = Inr (2023, 1, 2)"
    by (simp add: demo_defs picker_date_def date_of_def)
  have e: "picker_date (date_picker_end demo_widgets) = Inr (2023, 1, 5)"
    by (simp add: demo_defs picker_date_def date_of_def)
  have w: "metric_dropdown demo_widgets = ''std_dev''" "ma_slider demo_widgets = 1"
    by (simp_all add: demo_widgets_def)
  from update_graph_Inr [OF L s e, of 1 S1 10 None None]
  obtain fig where f: "update_graph demo_db ''std_dev'' S1 10 (date_picker_start demo_widgets)
                         (date_picker_end demo_widgets) None None 1 = Inr fig"
      and n: "map sc_name (fig_traces fig)
               = [''Channel ch1 (1-day MA)'', ''Channel ch2 (1-day MA)'', ''Channel ch3 (1-day MA)'']"
      and m: "map sc_mode (fig_traces fig) = [''lines+markers'', ''lines+markers'', ''lines+markers'']"
      and c: "map sc_line_color (fig_traces fig) = [''blue'', ''red'', ''green'']"
    by (auto simp: CHANNELS_def str_int_def)
  have "sensor_graph demo_db demo_widgets = Inr fig"
    using f by (simp add: sensor_graph_def demo_widgets_def)
  with n m c show ?thesis
    by (simp add: demo_widgets_def)
qed

section \<open>Properties of the weekly heatmap\<close>

subsection \<open>The population loop\<close>

lemma set_cell_length: "length (set_cell m r c v) = length m"
  by (simp add: set_cell_def)

lemma set_cell_row_length: "length (set_cell m r c v ! r') = length (m ! r')"
  by (cases "r < length m") (simp_all add: set_cell_def nth_list_update list_update_beyond)

lemma set_cell_nth:
  "r < length m \<Longrightarrow> c < length (m ! r) \<Longrightarrow>
     set_cell m r c v ! r' ! c' = (if r' = r \<and> c' = c then v else m ! r' ! c')"
  by (simp add: set_cell_def nth_list_update)

lemma cell_position_inj:
  assumes "i < 56" and "j < 56"
  shows "(6 - j div 8 = 6 - i div 8 \<and> j mod 8 = i mod 8) = (j = (i::nat))"
proof -
  have "i div 8 \<le> 6" "j div 8 \<le> 6" using assms by simp_all
  then have "(6 - j div 8 = 6 - i div 8) = (j div 8 = i div 8)" by arith
  moreover have "(j div 8 = i div 8 \<and> j mod 8 = i mod 8) = (j = i)"
    by (metis div_mult_mod_eq)
  ultimately show ?thesis by blast
qed

lemma populate_step_shape:
  "length (fst (populate_step stats i m)) = length (fst m)
   \<and> length (snd (populate_step stats i m)) = length (snd m)
   \<and> length (fst (populate_step stats i m) ! r) = length (fst m ! r)
   \<and> length (snd (populate_step stats i m) ! r) = length (snd m ! r)"
  by (simp add: populate_step_def Let_def set_cell_length set_cell_row_length)

lemma populate_step_cell:
  assumes "length (fst m) = 7" and "length (snd m) = 7"
      and "\<And>r. r < 7 \<Longrightarrow> length (fst m ! r) = 8" and "\<And>r. r < 7 \<Longrightarrow> length (snd m ! r) = 8"
      and "i < length stats" and "i < 56" and "j < 56"
  shows "fst (populate_step stats i m) ! (6 - j div 8) ! (j mod 8)
           = (if j = i then ws_corruption_percentage (stats ! i) else fst m ! (6 - j div 8) ! (j mod 8))"
    and "snd (populate_step stats i m) ! (6 - j div 8) ! (j mod 8)
           = (if j = i then Some (cell_text (stats ! i)) else snd m ! (6 - j div 8) ! (j mod 8))"
proof -
  have r: "6 - i div 8 < 7" and c: "i mod 8 < 8" by simp_all
  have inj: "(6 - j div 8 = 6 - i div 8 \<and> j mod 8 = i mod 8) = (j = i)"
    by (rule cell_position_inj [OF assms(6) assms(7)])
  show "fst (populate_step stats i m) ! (6 - j div 8) ! (j mod 8)
           = (if j = i then ws_corruption_percentage (stats ! i) else fst m ! (6 - j div 8) ! (j mod 8))"
    using assms(1) assms(3) [OF r] assms(5) inj
    by (simp add: populate_step_def Let_def set_cell_nth)
  show "snd (populate_step stats i m) ! (6 - j div 8) ! (j mod 8)
           = (if j = i then Some (cell_text (stats ! i)) else snd m ! (6 - j div 8) ! (j mod 8))"
    using assms(2) assms(4) [OF r] assms(5) inj
    by (simp add: populate_step_def Let_def set_cell_nth)
qed

lemma populate_fold:
  assumes "length (fst m) = 7" and "length (snd m) = 7"
      and "\<And>r. r < 7 \<Longrightarrow> length (fst m ! r) = 8" and "\<And>r. r < 7 \<Longrightarrow> length (snd m ! r) = 8"
      and "\<And>i. i \<in> set ixs \<Longrightarrow> i < length stats \<and> i < 56" and "j < 56"
  shows "fst (fold (populate_step stats) ixs m) ! (6 - j div 8) ! (j mod 8)
           = (if j \<in> set ixs then ws_corruption_percentage (stats ! j)
              else fst m ! (6 - j div 8) ! (j mod 8))
       \<and> snd (fold (populate_step stats) ixs m) ! (6 - j div 8) ! (j mod 8)
           = (if j \<in> set ixs then Some (cell_text (stats ! j))
              else snd m ! (6 - j div 8) ! (j mod 8))
       \<and> length (fst (fold (populate_step stats) ixs m)) = 7
       \<and> length (snd (fold (populate_step stats) ixs m)) = 7
       \<and> (\<forall>r<7. length (fst (fold (populate_step stats) ixs m) ! r) = 8
               \<and> length (snd (fold (populate_step stats) ixs m) ! r) = 8)"
  using assms
proof (induction ixs arbitrary: m rule: rev_induct)
  case Nil
  then show ?case by simp
next
  case (snoc i ixs)
  let ?m = "fold (populate_step stats) ixs m"
  have IH: "fst ?m ! (6 - j div 8) ! (j mod 8)
           = (if j \<in> set ixs then ws_corruption_percentage (stats ! j)
              else fst m ! (6 - j div 8) ! (j mod 8))
       \<and> snd ?m ! (6 - j div 8) ! (j mod 8)
           = (if j \<in> set ixs then Some (cell_text (stats ! j))
              else snd m ! (6 - j div 8) ! (j mod 8))
       \<and> length (fst ?m) = 7 \<and> length (snd ?m) = 7
       \<and> (\<forall>r<7. length (fst ?m ! r) = 8 \<and> length (snd ?m ! r) = 8)"
    using snoc.prems by (intro snoc.IH) simp_all
  have i: "i < length stats" "i < 56" using snoc.prems(5) [of i] by simp_all
  have f: "fst (populate_step stats i ?m) ! (6 - j div 8) ! (j mod 8)
           = (if j = i then ws_corruption_percentage (stats ! i) else fst ?m ! (6 - j div 8) ! (j mod 8))"
    using IH i snoc.prems(6) by (intro populate_step_cell(1)) simp_all
  have s: "snd (populate_step stats i ?m) ! (6 - j div 8) ! (j mod 8)
           = (if j = i then Some (cell_text (stats ! i)) else snd ?m ! (6 - j div 8) ! (j mod 8))"
    using IH i snoc.prems(6) by (intro populate_step_cell(2)) simp_all
  show ?case
    using IH f s by (simp add: populate_step_shape)
qed

lemma populate_cells:
  assumes "length stats = 53" and "j < 56"
  shows "fst (populate stats) ! (6 - j div 8) ! (j mod 8)
           = (if j < 53 then ws_corruption_percentage (stats ! j) else 0)
       \<and> snd (populate stats) ! (6 - j div 8) ! (j mod 8)
           = (if j < 53 then Some (cell_text (stats ! j)) else None)
       \<and> length (fst (populate stats)) = 7 \<and> length (snd (populate stats)) = 7
       \<and> (\<forall>r<7. length (fst (populate stats) ! r) = 8 \<and> length (snd (populate stats) ! r) = 8)"
proof -
  define ixs where "ixs = [0..<53::nat]"
  define m0 where "m0 = (replicate 7 (replicate 8 (0::real)),
                         replicate 7 (replicate 8 (None::string option)))"
  have mem: "\<And>i. (i \<in> set ixs) = (i < 53)" by (simp add: ixs_def)
  have pop: "populate stats = fold (populate_step stats) ixs m0"
    by (simp only: populate_def ixs_def m0_def)
  have row: "6 - j div 8 < 7" and col: "j mod 8 < 8" by simp_all
  have init: "\<And>r c. r < 7 \<Longrightarrow> c < 8 \<Longrightarrow> fst m0 ! r ! c = 0"
    "\<And>r c. r < 7 \<Longrightarrow> c < 8 \<Longrightarrow> snd m0 ! r ! c = None"
    by (simp_all add: m0_def)
  have shape: "length (fst m0) = 7" "length (snd m0) = 7"
    "\<And>r. r < 7 \<Longrightarrow> length (fst m0 ! r) = 8" "\<And>r. r < 7 \<Longrightarrow> length (snd m0 ! r) = 8"
    by (simp_all add: m0_def)
  have bound: "\<And>i. i \<in> set ixs \<Longrightarrow> i < length stats \<and> i < 56"
    using assms(1) by (simp add: mem)
  have res: "fst (fold (populate_step stats) ixs m0) ! (6 - j div 8) ! (j mod 8)
           = (if j \<in> set ixs then ws_corruption_percentage (stats ! j)
              else fst m0 ! (6 - j div 8) ! (j mod 8))
       \<and> snd (fold (populate_step stats) ixs m0) ! (6 - j div 8) ! (j mod 8)
           = (if j \<in> set ixs then Some (cell_text (stats ! j))
              else snd m0 ! (6 - j div 8) ! (j mod 8))
       \<and> length (fst (fold (populate_step stats) ixs m0)) = 7
       \<and> length (snd (fold (populate_step stats) ixs m0)) = 7
       \<and> (\<forall>r<7. length (fst (fold (populate_step stats) ixs m0) ! r) = 8
               \<and> length (snd (fold (populate_step stats) ixs m0) ! r) = 8)"
    by (rule populate_fold) (simp_all add: shape bound assms(2))
  show ?thesis
    using res by (simp add: pop mem init)
qed

subsection \<open>The weekly statistics\<close>

lemma sum_is_corrupted_bounds:
  "0 \<le> sum_list (map (is_corrupted sel) g) \<and> sum_list (map (is_corrupted sel) g) \<le> int (length g)"
  by (induction g) (auto simp: is_corrupted_def)

lemma distinct_filter_eq:
  "distinct L \<Longrightarrow> filter (\<lambda>x. x = w) L = (if w \<in> set L then [w] else [])"
  by (induction L) auto

lemma filter_group_weeks:
  "filter (\<lambda>s. ws_week s = w) (group_weeks sel df)
     = (if w \<in> week_of ` set df then [week_row sel df w] else [])"
proof -
  have k: "\<And>x. ws_week (week_row sel df x) = x"
    by (simp add: week_row_def Let_def)
  have "filter (\<lambda>s. ws_week s = w) (group_weeks sel df)
          = map (week_row sel df) (filter (\<lambda>x. x = w) (sort (remdups (map week_of df))))"
    by (simp add: group_weeks_def filter_map comp_def k)
  also have "\<dots> = (if w \<in> week_of ` set df then [week_row sel df w] else [])"
    by (simp add: distinct_filter_eq)
  finally show ?thesis .
qed

lemma merge_left_group_weeks:
  "merge_left ws (group_weeks sel df)
     = map (\<lambda>w. (w, if w \<in> week_of ` set df then Some (week_row sel df w) else None)) ws"
  by (induction ws) (simp_all add: merge_left_def filter_group_weeks)

lemma weekly_stats_eq:
  "weekly_stats df Y sel
     = map (\<lambda>w. if w \<in> week_of ` set (filter (\<lambda>r. ts_year (mr_time r) = Y) df)
                 then week_row sel (filter (\<lambda>r. ts_year (mr_time r) = Y) df) w
                 else \<lparr>ws_week = w, ws_id = 0, ws_is_corrupted = 0, ws_corruption_percentage = 0\<rparr>)
           [1..53]"
  by (simp add: weekly_stats_def Let_def merge_left_group_weeks comp_def if_distrib cong: if_cong)

lemma length_weekly_stats: "length (weekly_stats df Y sel) = 53"
  by (simp add: weekly_stats_eq)

lemma weekly_stats_nth:
  assumes "i < 53"
  shows "weekly_stats df Y sel ! i
     = (if int i + 1 \<in> week_of ` set (filter (\<lambda>r. ts_year (mr_time r) = Y) df)
        then week_row sel (filter (\<lambda>r. ts_year (mr_time r) = Y) df) (int i + 1)
        else \<lparr>ws_week = int i + 1, ws_id = 0, ws_is_corrupted = 0, ws_corruption_percentage = 0\<rparr>)"
proof -
  have "[1..53] ! i = 1 + int i"
    using assms by (intro nth_upto) simp
  then show ?thesis
    using assms by (simp add: weekly_stats_eq add.commute)
qed

lemma week_row_bounds:
  assumes "w \<in> week_of ` set df"
  shows "1 \<le> ws_id (week_row sel df w)"
    and "0 \<le> ws_is_corrupted (week_row sel df w)"
    and "ws_is_corrupted (week_row sel df w) \<le> ws_id (week_row sel df w)"
    and "0 \<le> ws_corruption_percentage (week_row sel df w)"
    and "ws_corruption_percentage (week_row sel df w) \<le> 100"
proof -
  let ?g = "week_group df w"
  let ?c = "sum_list (map (is_corrupted sel) ?g)"
  have ne: "?g \<noteq> []"
    using assms by (auto simp: week_group_def filter_empty_conv)
  then have t: "1 \<le> int (length ?g)"
    by (cases ?g) simp_all
  have c: "0 \<le> ?c" "?c \<le> int (length ?g)"
    using sum_is_corrupted_bounds [of sel ?g] by simp_all
  show "1 \<le> ws_id (week_row sel df w)" using t by (simp add: week_row_def Let_def)
  show "0 \<le> ws_is_corrupted (week_row sel df w)" using c by (simp add: week_row_def Let_def)
  show "ws_is_corrupted (week_row sel df w) \<le> ws_id (week_row sel df w)"
    using c by (simp add: week_row_def Let_def)
  have r: "0 \<le> real_of_int ?c" "real_of_int ?c \<le> real_of_int (int (length ?g))"
    "0 < real_of_int (int (length ?g))"
    using c t ne by simp_all
  have q: "0 \<le> real_of_int ?c / real_of_int (int (length ?g))"
    "real_of_int ?c / real_of_int (int (length ?g)) \<le> 1"
    using r by (simp_all add: divide_le_eq_1)
  have "0 \<le> real_of_int ?c / real_of_int (int (length ?g)) * 100"
    by (intro mult_nonneg_nonneg) (use q in simp_all)
  then show "0 \<le> ws_corruption_percentage (week_row sel df w)"
    by (simp only: week_row_def Let_def week_stats.simps)
  have "real_of_int ?c / real_of_int (int (length ?g)) * 100 \<le> 1 * 100"
    using q by (intro mult_right_mono) simp_all
  then have "real_of_int ?c / real_of_int (int (length ?g)) * 100 \<le> 100"
    by simp
  then show "ws_corruption_percentage (week_row sel df w) \<le> 100"
    by (simp only: week_row_def Let_def week_stats.simps)
qed

lemma weekly_stats_bounds:
  assumes "i < 53"
  shows "ws_week (weekly_stats df Y sel ! i) = int i + 1
       \<and> 0 \<le> ws_is_corrupted (weekly_stats df Y sel ! i)
       \<and> ws_is_corrupted (weekly_stats df Y sel ! i) \<le> ws_id (weekly_stats df Y sel ! i)
       \<and> 0 \<le> ws_corruption_percentage (weekly_stats df Y sel ! i)
       \<and> ws_corruption_percentage (weekly_stats df Y sel ! i) \<le> 100"
proof (cases "int i + 1 \<in> week_of ` set (filter (\<lambda>r. ts_year (mr_time r) = Y) df)")
  case True
  have "ws_week (week_row sel (filter (\<lambda>r. ts_year (mr_time r) = Y) df) (int i + 1)) = int i + 1"
    by (simp add: week_row_def Let_def)
  with True week_row_bounds [OF True, of sel] show ?thesis
    by (simp add: weekly_stats_nth [OF assms])
next
  case False
  then show ?thesis
    by (simp add: weekly_stats_nth [OF assms])
qed

subsection \<open>The grid of the figure\<close>

lemma heatmap_cells:
  assumes "j < 56"
  shows "hm_z (update_heatmap df Y sel) ! (6 - j div 8) ! (j mod 8)
           = (if j < 53 then ws_corruption_percentage (weekly_stats df Y sel ! j) else 0)
       \<and> hm_text (update_heatmap df Y sel) ! (6 - j div 8) ! (j mod 8)
           = (if j < 53 then Some (cell_text (weekly_stats df Y sel ! j)) else None)
       \<and> length (hm_text (update_heatmap df Y sel)) = 7
       \<and> (\<forall>r<7. length (hm_text (update_heatmap df Y sel) ! r) = 8)"
  using populate_cells [OF length_weekly_stats assms, of df Y sel]
  by (simp add: update_heatmap_def Let_def)

lemma cell_of_row_col:
  assumes "r < 7" and "c < 8"
  shows "6 - ((6 - r) * 8 + c) div 8 = r \<and> ((6 - r) * 8 + c) mod 8 = (c::nat)
       \<and> (6 - r) * 8 + c < 56"
proof -
  have d: "((6 - r) * 8 + c) div 8 = 6 - r" using assms(2) by simp
  have m: "((6 - r) * 8 + c) mod 8 = c" using assms(2) by simp
  have "(6 - r) * 8 \<le> 48" by simp
  then have b: "(6 - r) * 8 + c < 56" using assms(2) by linarith
  from d m b assms(1) show ?thesis by simp
qed

lemma heatmap_text_populated:
  assumes "r < 7" and "c < 8"
  shows "(hm_text (update_heatmap df Y sel) ! r ! c \<noteq> None) = ((6 - r) * 8 + c < 53)"
proof -
  from cell_of_row_col [OF assms]
  have p: "6 - ((6 - r) * 8 + c) div 8 = r" "((6 - r) * 8 + c) mod 8 = c" "(6 - r) * 8 + c < 56"
    by simp_all
  from heatmap_cells [OF p(3), of df Y sel] show ?thesis
    by (simp only: p) simp
qed

lemma upt_8: "[0..<8] = [0, 1, 2, 3, 4, 5, 6, 7::nat]"
  by code_simp

lemma upt_7: "[0..<7] = [0, 1, 2, 3, 4, 5, 6::nat]"
  by code_simp

lemma heatmap_row_count:
  assumes "r < 7"
  shows "length (filter (\<lambda>t. t \<noteq> None) (hm_text (update_heatmap df Y sel) ! r))
           = (if r = 0 then 5 else 8)"
proof -
  let ?T = "hm_text (update_heatmap df Y sel)"
  have len: "length (?T ! r) = 8"
    using heatmap_cells [of 0 df Y sel] assms by simp
  have "?T ! r = map (\<lambda>c. ?T ! r ! c) [0..<8]"
    using map_nth [of "?T ! r"] len by simp
  then have "length (filter (\<lambda>t. t \<noteq> None) (?T ! r))
               = length (filter (\<lambda>t. t \<noteq> None) (map (\<lambda>c. ?T ! r ! c) [0..<8]))"
    by simp
  also have "\<dots> = length (filter (\<lambda>c. ?T ! r ! c \<noteq> None) [0..<8])"
    by (simp add: filter_map comp_def)
  also have "filter (\<lambda>c. ?T ! r ! c \<noteq> None) [0..<8] = filter (\<lambda>c. (6 - r) * 8 + c < 53) [0..<8]"
  proof (rule filter_cong)
    fix c assume "c \<in> set [0..<8]"
    then have "c < 8" by simp
    from heatmap_text_populated [OF assms this, of df Y sel]
    show "(?T ! r ! c \<noteq> None) = ((6 - r) * 8 + c < 53)" .
  qed simp
  also have "length (filter (\<lambda>c. (6 - r) * 8 + c < 53) [0..<8]) = (if r = 0 then 5 else 8)"
  proof (cases "r = 0")
    case True
    then show ?thesis by (simp add: upt_8)
  next
    case False
    then have "(6 - r) * 8 \<le> 40" using assms by simp
    then have "\<And>c. c < 8 \<Longrightarrow> (6 - r) * 8 + c < 53" by linarith
    then have "filter (\<lambda>c. (6 - r) * 8 + c < 53) [0..<8] = [0..<8]"
      by (simp add: filter_id_conv)
    with False show ?thesis by simp
  qed
  finally show ?thesis .
qed

lemma length_filter_concat:
  "length (filter P (concat xss)) = (\<Sum>xs\<leftarrow>xss. length (filter P xs))"
  by (induction xss) simp_all

lemma heatmap_populated_count:
  "length (filter (\<lambda>t. t \<noteq> None) (concat (hm_text (update_heatmap df Y sel)))) = 53"
proof -
  let ?T = "hm_text (update_heatmap df Y sel)"
  have len: "length ?T = 7"
    using heatmap_cells [of 0 df Y sel] by simp
  have T: "?T = map (\<lambda>r. ?T ! r) [0..<7]"
    using map_nth [of ?T] len by simp
  have "(\<Sum>xs\<leftarrow>?T. length (filter (\<lambda>t. t \<noteq> None) xs))
          = (\<Sum>xs\<leftarrow>map (\<lambda>r. ?T ! r) [0..<7]. length (filter (\<lambda>t. t \<noteq> None) xs))"
    using T by simp
  also have "\<dots> = (\<Sum>r\<leftarrow>[0..<7]. length (filter (\<lambda>t. t \<noteq> None) (?T ! r)))"
    by (simp add: comp_def)
  also have "\<dots> = (\<Sum>r\<leftarrow>[0..<7]. if r = 0 then 5 else 8)"
  proof (rule arg_cong [where f = sum_list], rule map_cong)
    fix r assume "r \<in> set [0..<7]"
    then have "r < 7" by simp
    from heatmap_row_count [OF this, of df Y sel]
    show "length (filter (\<lambda>t. t \<noteq> None) (?T ! r)) = (if r = 0 then 5 else 8)" .
  qed simp
  also have "\<dots> = 53"
    by (simp add: upt_7)
  finally show ?thesis
    by (simp add: length_filter_concat)
qed

lemma heatmap_cell_count: "length (concat (hm_text (update_heatmap df Y sel))) = 56"
proof -
  let ?T = "hm_text (update_heatmap df Y sel)"
  have len: "length ?T = 7" and rows: "\<forall>r<7. length (?T ! r) = 8"
    using heatmap_cells [of 0 df Y sel] by simp_all
  have T: "?T = map (\<lambda>r. ?T ! r) [0..<7]"
    using map_nth [of ?T] len by simp
  have "length (concat ?T) = (\<Sum>xs\<leftarrow>?T. length xs)"
    by (simp add: length_concat)
  also have "\<dots> = (\<Sum>xs\<leftarrow>map (\<lambda>r. ?T ! r) [0..<7]. length xs)"
    using T by simp
  also have "\<dots> = (\<Sum>r\<leftarrow>[0..<7]. length (?T ! r))"
    by (simp add: comp_def)
  also have "\<dots> = (\<Sum>r\<leftarrow>[0..<7]. 8)"
    by (rule arg_cong [where f = sum_list], rule map_cong) (simp_all add: rows)
  also have "\<dots> = 56"
    by (simp add: upt_7)
  finally show ?thesis .
qed

subsection \<open>Weeks, cells and blanks\<close>

text \<open>
  C2. For every week number \<open>w\<close> from 1 to 53, the heatmap shows the percentage and the
  text of week \<open>w\<close> in the cell of row \<open>6 - (w - 1) div 8\<close> and column
  \<open>(w - 1) mod 8\<close>; week 1 is in row 6, column 0, and week 53 in row 0, column 4.
\<close>
theorem heatmap_week_position:
  assumes "1 \<le> w" and "w \<le> 53"
  shows "hm_z (update_heatmap df Y sel) ! (6 - (w - 1) div 8) ! ((w - 1) mod 8)
           = ws_corruption_percentage (weekly_stats df Y sel ! (w - 1))
       \<and> hm_text (update_heatmap df Y sel) ! (6 - (w - 1) div 8) ! ((w - 1) mod 8)
           = Some (cell_text (weekly_stats df Y sel ! (w - 1)))
       \<and> ws_week (weekly_stats df Y sel ! (w - 1)) = int w
       \<and> hm_z (update_heatmap df Y sel) ! 6 ! 0
           = ws_corruption_percentage (weekly_stats df Y sel ! 0)
       \<and> ws_week (weekly_stats df Y sel ! 0) = 1
       \<and> hm_z (update_heatmap df Y sel) ! 0 ! 4
           = ws_corruption_percentage (weekly_stats df Y sel ! 52)
       \<and> ws_week (weekly_stats df Y sel ! 52) = 53"
proof -
  have j: "w - 1 < 53" "w - 1 < 56" using assms by simp_all
  have wk: "ws_week (weekly_stats df Y sel ! (w - 1)) = int w"
    using weekly_stats_bounds [OF j(1), of df Y sel] assms(1) by simp
  have first: "hm_z (update_heatmap df Y sel) ! 6 ! 0
           = ws_corruption_percentage (weekly_stats df Y sel ! 0)"
    using heatmap_cells [of 0 df Y sel] by simp
  have last: "hm_z (update_heatmap df Y sel) ! 0 ! 4
           = ws_corruption_percentage (weekly_stats df Y sel ! 52)"
    using heatmap_cells [of 52 df Y sel] by simp
  have w1: "ws_week (weekly_stats df Y sel ! 0) = 1"
    using weekly_stats_bounds [of 0 df Y sel] by simp
  have w53: "ws_week (weekly_stats df Y sel ! 52) = 53"
    using weekly_stats_bounds [of 52 df Y sel] by simp
  from heatmap_cells [OF j(2), of df Y sel] j(1) wk first last w1 w53
  show ?thesis by simp
qed

text \<open>
  C3. For every year and selector the grid of 7 by 8 cells has exactly 53 populated cells,
  one for each week from 1 to 53, a week without samples being filled with zeros; in every
  populated cell the corrupted count is between 0 and the total, and the percentage is
  between 0 and 100.
\<close>
theorem heatmap_grid_cells:
  "length (filter (\<lambda>t. t \<noteq> None) (concat (hm_text (update_heatmap df Y sel)))) = 53
   \<and> length (concat (hm_text (update_heatmap df Y sel))) = 56
   \<and> length (weekly_stats df Y sel) = 53
   \<and> (\<forall>i<53.
        hm_text (update_heatmap df Y sel) ! (6 - i div 8) ! (i mod 8)
          = Some (cell_text (weekly_stats df Y sel ! i))
        \<and> hm_z (update_heatmap df Y sel) ! (6 - i div 8) ! (i mod 8)
          = ws_corruption_percentage (weekly_stats df Y sel ! i)
        \<and> ws_week (weekly_stats df Y sel ! i) = int i + 1
        \<and> 0 \<le> ws_is_corrupted (weekly_stats df Y sel ! i)
        \<and> ws_is_corrupted (weekly_stats df Y sel ! i) \<le> ws_id (weekly_stats df Y sel ! i)
        \<and> 0 \<le> ws_corruption_percentage (weekly_stats df Y sel ! i)
        \<and> ws_corruption_percentage (weekly_stats df Y sel ! i) \<le> 100
        \<and> (int i + 1 \<notin> week_of ` set (filter (\<lambda>r. ts_year (mr_time r) = Y) df)
             \<longrightarrow> weekly_stats df Y sel ! i
                   = \<lparr>ws_week = int i + 1, ws_id = 0, ws_is_corrupted = 0,
                      ws_corruption_percentage = 0\<rparr>))"
proof -
  have cells: "\<forall>i<53.
        hm_text (update_heatmap df Y sel) ! (6 - i div 8) ! (i mod 8)
          = Some (cell_text (weekly_stats df Y sel ! i))
        \<and> hm_z (update_heatmap df Y sel) ! (6 - i div 8) ! (i mod 8)
          = ws_corruption_percentage (weekly_stats df Y sel ! i)
        \<and> ws_week (weekly_stats df Y sel ! i) = int i + 1
        \<and> 0 \<le> ws_is_corrupted (weekly_stats df Y sel ! i)
        \<and> ws_is_corrupted (weekly_stats df Y sel ! i) \<le> ws_id (weekly_stats df Y sel ! i)
        \<and> 0 \<le> ws_corruption_percentage (weekly_stats df Y sel ! i)
        \<and> ws_corruption_percentage (weekly_stats df Y sel ! i) \<le> 100
        \<and> (int i + 1 \<notin> week_of ` set (filter (\<lambda>r. ts_year (mr_time r) = Y) df)
             \<longrightarrow> weekly_stats df Y sel ! i
                   = \<lparr>ws_week = int i + 1, ws_id = 0, ws_is_corrupted = 0,
                      ws_corruption_percentage = 0\<rparr>)"
  proof (intro allI impI)
    fix i :: nat assume i: "i < 53"
    then have j: "i < 56" by simp
    from heatmap_cells [OF j, of df Y sel] weekly_stats_bounds [OF i, of df Y sel]
         weekly_stats_nth [OF i, of df Y sel] i
    show "hm_text (update_heatmap df Y sel) ! (6 - i div 8) ! (i mod 8)
          = Some (cell_text (weekly_stats df Y sel ! i))
        \<and> hm_z (update_heatmap df Y sel) ! (6 - i div 8) ! (i mod 8)
          = ws_corruption_percentage (weekly_stats df Y sel ! i)
        \<and> ws_week (weekly_stats df Y sel ! i) = int i + 1
        \<and> 0 \<le> ws_is_corrupted (weekly_stats df Y sel ! i)
        \<and> ws_is_corrupted (weekly_stats df Y sel ! i) \<le> ws_id (weekly_stats df Y sel ! i)
        \<and> 0 \<le> ws_corruption_percentage (weekly_stats df Y sel ! i)
        \<and> ws_corruption_percentage (weekly_stats df Y sel ! i) \<le> 100
        \<and> (int i + 1 \<notin> week_of ` set (filter (\<lambda>r. ts_year (mr_time r) = Y) df)
             \<longrightarrow> weekly_stats df Y sel ! i
                   = \<lparr>ws_week = int i + 1, ws_id = 0, ws_is_corrupted = 0,
                      ws_corruption_percentage = 0\<rparr>)"
      by simp
  qed
  from heatmap_populated_count [of df Y sel] heatmap_cell_count [of df Y sel]
       length_weekly_stats [of df Y sel] cells
  show ?thesis by blast
qed

lemma loop_misses_blank_cells:
  assumes "i < 53"
  shows "(6 - i div 8, i mod 8) \<notin> {(0, 5), (0, 6), (0, 7::nat)}"
proof (cases "i < 48")
  case True
  then have "i div 8 < 6" by simp
  then show ?thesis by auto
next
  case False
  with assms have "i mod 8 < 5" by presburger
  then show ?thesis by auto
qed

text \<open>
  C9. The cells of row 0, columns 5 to 7 (indices 53 to 55) are not reached by the loop:
  their value is the initial 0 and their text is unset. With the scale from 0 to 100 they
  fall on the stop of 0, green, as does every populated week with 0 percent.
\<close>
theorem heatmap_blank_cells:
  "hm_z (update_heatmap df Y sel) ! 0 ! 5 = 0
   \<and> hm_z (update_heatmap df Y sel) ! 0 ! 6 = 0
   \<and> hm_z (update_heatmap df Y sel) ! 0 ! 7 = 0
   \<and> hm_text (update_heatmap df Y sel) ! 0 ! 5 = None
   \<and> hm_text (update_heatmap df Y sel) ! 0 ! 6 = None
   \<and> hm_text (update_heatmap df Y sel) ! 0 ! 7 = None
   \<and> (\<forall>i<53. (6 - i div 8, i mod 8) \<notin> {(0, 5), (0, 6), (0, 7::nat)})
   \<and> colour_stop (update_heatmap df Y sel) 0 5 = Some ''green''
   \<and> colour_stop (update_heatmap df Y sel) 0 6 = Some ''green''
   \<and> colour_stop (update_heatmap df Y sel) 0 7 = Some ''green''
   \<and> (\<forall>i<53. ws_corruption_percentage (weekly_stats df Y sel ! i) = 0
        \<longrightarrow> colour_stop (update_heatmap df Y sel) (6 - i div 8) (i mod 8) = Some ''green'')"
proof -
  have c53: "hm_z (update_heatmap df Y sel) ! 0 ! 5 = 0 \<and> hm_text (update_heatmap df Y sel) ! 0 ! 5 = None"
    using heatmap_cells [of 53 df Y sel] by simp
  have c54: "hm_z (update_heatmap df Y sel) ! 0 ! 6 = 0 \<and> hm_text (update_heatmap df Y sel) ! 0 ! 6 = None"
    using heatmap_cells [of 54 df Y sel] by simp
  have c55: "hm_z (update_heatmap df Y sel) ! 0 ! 7 = 0 \<and> hm_text (update_heatmap df Y sel) ! 0 ! 7 = None"
    using heatmap_cells [of 55 df Y sel] by simp
  have scale: "\<And>r c. hm_z (update_heatmap df Y sel) ! r ! c = 0
                 \<Longrightarrow> colour_stop (update_heatmap df Y sel) r c = Some ''green''"
    by (simp add: colour_stop_def) (simp add: update_heatmap_def Let_def)
  have zero: "\<forall>i<53. ws_corruption_percentage (weekly_stats df Y sel ! i) = 0
        \<longrightarrow> colour_stop (update_heatmap df Y sel) (6 - i div 8) (i mod 8) = Some ''green''"
  proof (intro allI impI)
    fix i :: nat assume i: "i < 53" and z: "ws_corruption_percentage (weekly_stats df Y sel ! i) = 0"
    from i have "i < 56" by simp
    from heatmap_cells [OF this, of df Y sel] i z
    have "hm_z (update_heatmap df Y sel) ! (6 - i div 8) ! (i mod 8) = 0" by simp
    then show "colour_stop (update_heatmap df Y sel) (6 - i div 8) (i mod 8) = Some ''green''"
      by (rule scale)
  qed
  have miss: "\<forall>i<53. (6 - i div 8, i mod 8) \<notin> {(0, 5), (0, 6), (0, 7::nat)}"
    using loop_misses_blank_cells by blast
  from c53 c54 c55 scale zero miss show ?thesis by simp
qed

subsection \<open>The heatmap of the example frame\<close>

lemma demo_week1:
  "weekly_stats demo_flags 2023 (Ch1, S1) ! 0
     = \<lparr>ws_week = 1, ws_id = 2, ws_is_corrupted = 1, ws_corruption_percentage = 50\<rparr>"
  by code_simp

lemma demo_week3:
  "weekly_stats demo_flags 2023 (Ch1, S1) ! 2
     = \<lparr>ws_week = 3, ws_id = 0, ws_is_corrupted = 0, ws_corruption_percentage = 0\<rparr>"
  by code_simp

lemma demo_week53:
  "weekly_stats demo_flags 2023 (Ch1, S1) ! 52
     = \<lparr>ws_week = 53, ws_id = 0, ws_is_corrupted = 0, ws_corruption_percentage = 0\<rparr>"
  by code_simp

text \<open>Week 1 of 2023 in the example has two samples, one of them marked.\<close>
theorem heatmap_week_position_witness:
  "hm_z (update_heatmap demo_flags 2023 (Ch1, S1)) ! 6 ! 0 = 50
   \<and> hm_text (update_heatmap demo_flags 2023 (Ch1, S1)) ! 6 ! 0
       = Some ''Week 1<br>2 total<br>1 corrupted''
   \<and> hm_z (update_heatmap demo_flags 2023 (Ch1, S1)) ! 0 ! 4 = 0"
  using heatmap_week_position [of 1 demo_flags 2023 "(Ch1, S1)"]
  by (simp add: demo_week1 demo_week53 cell_text_def str_int_def)

text \<open>Week 3 has no sample in the example: its cell is populated with zeros.\<close>
theorem heatmap_grid_cells_witness:
  "length (filter (\<lambda>t. t \<noteq> None) (concat (hm_text (update_heatmap demo_flags 2023 (Ch1, S1))))) = 53
   \<and> hm_z (update_heatmap demo_flags 2023 (Ch1, S1)) ! 6 ! 0 = 50
   \<and> hm_z (update_heatmap demo_flags 2023 (Ch1, S1)) ! 6 ! 2 = 0
   \<and> hm_text (update_heatmap demo_flags 2023 (Ch1, S1)) ! 6 ! 2
       = Some ''Week 3<br>0 total<br>0 corrupted''"
proof -
  note g = heatmap_grid_cells [of demo_flags 2023 "(Ch1, S1)"]
  from g have a: "length (filter (\<lambda>t. t \<noteq> None)
                     (concat (hm_text (update_heatmap demo_flags 2023 (Ch1, S1))))) = 53"
    by blast
  from g have c: "\<forall>i<53. hm_text (update_heatmap demo_flags 2023 (Ch1, S1)) ! (6 - i div 8) ! (i mod 8)
          = Some (cell_text (weekly_stats demo_flags 2023 (Ch1, S1) ! i))
        \<and> hm_z (update_heatmap demo_flags 2023 (Ch1, S1)) ! (6 - i div 8) ! (i mod 8)
          = ws_corruption_percentage (weekly_stats demo_flags 2023 (Ch1, S1) ! i)"
    by blast
  from c [rule_format, of 0] c [rule_format, of 2] a show ?thesis
    by (simp add: demo_week1 demo_week3 cell_text_def str_int_def)
qed

text \<open>The blank cell of column 5 and the populated cell of week 3 are both green.\<close>
theorem heatmap_blank_cells_witness:
  "colour_stop (update_heatmap demo_flags 2023 (Ch1, S1)) 6 2 = Some ''green''
   \<and> colour_stop (update_heatmap demo_flags 2023 (Ch1, S1)) 0 5 = Some ''green''
   \<and> hm_z (update_heatmap demo_flags 2023 (Ch1, S1)) ! 0 ! 5 = 0
   \<and> hm_text (update_heatmap demo_flags 2023 (Ch1, S1)) ! 0 ! 5 = None
   \<and> hm_text (update_heatmap demo_flags 2023 (Ch1, S1)) ! 6 ! 2 \<noteq> None"
proof -
  note b = heatmap_blank_cells [of demo_flags 2023 "(Ch1, S1)"]
  from b have z: "\<forall>i<53. ws_corruption_percentage (weekly_stats demo_flags 2023 (Ch1, S1) ! i) = 0
        \<longrightarrow> colour_stop (update_heatmap demo_flags 2023 (Ch1, S1)) (6 - i div 8) (i mod 8)
              = Some ''green''"
    by blast
  have t: "hm_text (update_heatmap demo_flags 2023 (Ch1, S1)) ! 6 ! 2 \<noteq> None"
    using heatmap_cells [of 2 demo_flags 2023 "(Ch1, S1)"] by simp
  from z [rule_format, of 2] b t show ?thesis
    by (simp add: demo_week3)
qed

end
